theory Spec2Isabelle
  imports Complex_Main "HOL-Library.Word" "HOL-Library.Monad_Syntax"
begin

unbundle bit_operations_syntax

section \<open>Data model of the backlight module (src/modules/backlight.c)\<close>

text \<open>
  The C module keeps its data in file-level statics, in the process-wide \<open>state\<close> and
  \<open>conf\<close> structures and in the module runtime. The embedding gathers all of it in one
  record that every function takes and returns. C \<open>double\<close> is idealised as \<open>real\<close>,
  C \<open>int\<close> as \<open>int\<close> (the pause bitmask and the start-up accumulator, which are only
  combined bitwise, as 32-bit words). Declarations that live in headers outside the
  sources are parameters of the model (record \<open>externs\<close>).
\<close>

datatype backlight_pause = UNPAUSED | DISPLAY | SENSOR | AUTOCALIB | LID

fun pause_bit :: "backlight_pause \<Rightarrow> 32 word" where
  "pause_bit UNPAUSED = 0x00"
| "pause_bit DISPLAY = 0x01"
| "pause_bit SENSOR = 0x02"
| "pause_bit AUTOCALIB = 0x04"
| "pause_bit LID = 0x08"

datatype ac_states = ON_AC | ON_BATTERY

text \<open>The three message handlers a module can have installed: \<open>receive\<close> (the default),
  \<open>receive_waiting_init\<close> and \<open>receive_paused\<close>.\<close>

datatype behavior = B_receive | B_waiting_init | B_paused

record daytime_upd =
  dt_old :: int
  dt_new :: int

record timeout_upd =
  to_state :: ac_states
  to_daytime :: int
  to_new :: int

record capture_upd =
  cap_reset_timer :: bool
  cap_capture_only :: bool

record curve_upd =
  curve_regression_points :: "real list option"
  curve_num_points :: int
  curve_state :: ac_states

record calib_upd =
  calib_new :: bool

record bl_upd =
  bl_old :: real
  bl_new :: real
  bl_smooth :: int
  bl_step :: real
  bl_timeout :: int

record sens_upd =
  sens_old :: int
  sens_new :: int

text \<open>
  A message as a handler sees it: \<open>MSG_TYPE()\<close> is the constructor, \<open>MSG_DATA()\<close> its
  argument. The payloads of \<open>UPOWER_UPD\<close>, \<open>DISPLAY_UPD\<close> and \<open>LID_UPD\<close> are never read by
  this module and are left out. \<open>OTHER_UPD\<close> stands for every type the handlers send to
  their \<open>default\<close> branch.

  Modelled from the spec: the message structures are declared in a header that is not
  among the sources; following the spec (``every inbound request-type message carries
  a generation/identity token''), each request carries a token, the first argument of
  the five \<open>_REQ\<close> constructors.
\<close>

datatype message =
    FD_UPD int
  | UPOWER_UPD
  | DISPLAY_UPD
  | LID_UPD
  | DAYTIME_UPD daytime_upd
  | IN_EVENT_UPD daytime_upd
  | BL_TO_REQ nat timeout_upd
  | CAPTURE_REQ nat capture_upd
  | CURVE_REQ nat curve_upd
  | NO_AUTOCALIB_REQ nat calib_upd
  | BL_REQ nat bl_upd
  | BL_UPD bl_upd
  | AMBIENT_BR_UPD bl_upd
  | SENS_UPD sens_upd
  | OTHER_UPD

datatype req_kind = K_BL_TO | K_CAPTURE | K_CURVE | K_NO_AUTOCALIB | K_BL

text \<open>Method calls on the external service, with the arguments the module passes.\<close>

datatype bus_call =
    SetAll real int real int string
  | IsAvailable string
  | Capture string int string

text \<open>What the environment answers to a method call: nothing (the call could not be
  issued, or the service returned an error), or a reply message of some signature.\<close>

datatype bus_reply =
    No_reply
  | Reply_b bool
  | Reply_sb string bool
  | Reply_sad string "real list"
  | Reply_other

text \<open>Everything the module does to the outside, in the order it does it.\<close>

datatype effect =
    E_pub message
  | E_call bus_call
  | E_set_timeout int int int int
  | E_reset_timer int int int
  | E_read_timer int
  | E_start_timer int int
  | E_add_match string
  | E_register_fd int
  | E_deregister_fd int
  | E_become behavior
  | E_unbecome
  | E_info string
  | E_warn string

record bl_conf_t =
  disabled :: int
  timeout :: "ac_states \<Rightarrow> int list"
  no_auto_calib :: int
  pause_on_lid_closed :: int
  shutter_threshold :: real
  no_smooth :: int
  trans_step :: real
  trans_timeout :: int
  screen_path :: string

record sens_conf_t =
  dev_name :: string
  dev_opts :: string
  num_captures :: "ac_states \<Rightarrow> int"
  regression_points :: "ac_states \<Rightarrow> real list"
  num_points :: "ac_states \<Rightarrow> int"

record state_t =
  ac_state :: ac_states
  day_time :: int
  in_event :: int
  lid_state :: int
  display_state :: int
  sens_avail :: int
  ambient_br :: real
  screen_comp :: real
  current_bl_pct :: real
  fit_parameters :: "ac_states \<Rightarrow> real \<times> real \<times> real"

text \<open>
  The module: configuration (\<open>conf.bl_conf\<close>, \<open>conf.sens_conf\<close>), the shared \<open>state\<close>,
  the statics of backlight.c (\<open>bl_fd\<close>, \<open>paused_state\<close>, \<open>paused_fd_recv\<close>, the static
  \<open>ok\<close> of \<open>receive_waiting_init\<close>, the \<open>capture_req\<close> message), the runtime's behaviour
  stack and request tokens, the environment's answers to bus calls (\<open>bus\<close>, indexed by
  the number of calls made so far, \<open>ncalls\<close>) and the trace of effects.
\<close>

record backlight =
  bl_conf :: bl_conf_t
  sens_conf :: sens_conf_t
  state :: state_t
  bl_fd :: int
  paused_state :: "32 word"
  paused_fd_recv :: bool
  ok :: "32 word"
  capture_req :: capture_upd
  stack :: "behavior list"
  latest :: "req_kind \<Rightarrow> nat"
  bus :: "nat \<Rightarrow> bus_reply"
  ncalls :: nat
  trace :: "effect list"

text \<open>
  Declarations the sources use but do not contain: the enumerators \<open>DAY\<close>, \<open>IN_EVENT\<close>
  and \<open>SIZE_STATES\<close> (commons header), the descriptor \<open>start_timer\<close> returns, and the
  numerical routines \<open>compute_average\<close> and \<open>polynomialfit\<close> of \<open>my_math.h\<close>
  (\<open>polynomialfit\<close> gets the points, the coefficients it overwrites and the number of
  points). They are parameters: the theorems hold for every choice of them.
\<close>

record externs =
  DAY :: int
  IN_EVENT :: int
  SIZE_STATES :: int
  timer_fd :: int
  compute_average :: "real list \<Rightarrow> real"
  polynomialfit :: "real list \<Rightarrow> real \<times> real \<times> real \<Rightarrow> int \<Rightarrow> real \<times> real \<times> real"

section \<open>Module runtime\<close>

definition emit :: "effect \<Rightarrow> backlight \<Rightarrow> backlight" where
  "emit e s = s\<lparr>trace := trace s @ [e]\<rparr>"

text \<open>
  Modelled from the spec: \<open>m_become\<close> and \<open>m_unbecome\<close> are macros of the module runtime,
  which is not among the sources. The spec: ``Each module has a default behavior set
  once at initialization and a behavior stack; \<open>become(new_behavior)\<close> pushes;
  \<open>unbecome()\<close> pops back to the previous one. Only the top-of-stack behavior receives
  dispatched messages.'' The stack holds the pushed behaviours; with nothing pushed the
  default behaviour \<open>receive\<close> is current.
\<close>

definition m_become :: "behavior \<Rightarrow> backlight \<Rightarrow> backlight" where
  "m_become b s = emit (E_become b) (s\<lparr>stack := b # stack s\<rparr>)"

definition m_unbecome :: "backlight \<Rightarrow> backlight" where
  "m_unbecome s = emit E_unbecome (s\<lparr>stack := (case stack s of [] \<Rightarrow> [] | _ # rest \<Rightarrow> rest)\<rparr>)"

definition current_behavior :: "backlight \<Rightarrow> behavior" where
  "current_behavior s = (case stack s of [] \<Rightarrow> B_receive | b # _ \<Rightarrow> b)"

text \<open>\<open>m_register_fd\<close> and \<open>m_deregister_fd\<close> tell the runtime whether to watch the timer's
  descriptor; the model records them with the descriptor.\<close>

definition m_register_fd :: "int \<Rightarrow> backlight \<Rightarrow> backlight" where
  "m_register_fd fd s = emit (E_register_fd fd) s"

definition m_deregister_fd :: "int \<Rightarrow> backlight \<Rightarrow> backlight" where
  "m_deregister_fd fd s = emit (E_deregister_fd fd) s"

section \<open>Pausing and resuming\<close>

definition pause_mod :: "backlight_pause \<Rightarrow> backlight \<Rightarrow> backlight" where
  "pause_mod type s =
     (let old_paused = paused_state s;
          s1 = s\<lparr>paused_state := paused_state s OR pause_bit type\<rparr>
      in if old_paused = pause_bit UNPAUSED \<and> paused_state s1 \<noteq> pause_bit UNPAUSED
         then (m_deregister_fd (bl_fd s1) (m_become B_paused s1))\<lparr>paused_fd_recv := False\<rparr>
         else s1)"

definition resume_mod :: "backlight_pause \<Rightarrow> backlight \<Rightarrow> backlight" where
  "resume_mod type s =
     (let old_paused = paused_state s;
          s1 = s\<lparr>paused_state := paused_state s AND NOT (pause_bit type)\<rparr>
      in if old_paused \<noteq> pause_bit UNPAUSED \<and> paused_state s1 = pause_bit UNPAUSED
         then m_register_fd (bl_fd s1) (m_unbecome s1)
         else s1)"

text \<open>A sequence of \<open>pause_mod\<close>/\<open>resume_mod\<close> calls.\<close>

datatype pause_call = Pause backlight_pause | Resume backlight_pause

fun do_pause_call :: "pause_call \<Rightarrow> backlight \<Rightarrow> backlight" where
  "do_pause_call (Pause r) s = pause_mod r s"
| "do_pause_call (Resume r) s = resume_mod r s"

fun pause_calls :: "pause_call list \<Rightarrow> backlight \<Rightarrow> backlight" where
  "pause_calls [] s = s"
| "pause_calls (c # cs) s = pause_calls cs (do_pause_call c s)"

section \<open>Timers, publishing and bus calls\<close>


definition set_timeout :: "int \<Rightarrow> int \<Rightarrow> int \<Rightarrow> int \<Rightarrow> backlight \<Rightarrow> backlight" where
  "set_timeout sec nsec fd flags s = emit (E_set_timeout sec nsec fd flags) s"

definition reset_timer :: "int \<Rightarrow> int \<Rightarrow> int \<Rightarrow> backlight \<Rightarrow> backlight" where
  "reset_timer fd old_timer new_timer s = emit (E_reset_timer fd old_timer new_timer) s"

definition read_timer :: "int \<Rightarrow> backlight \<Rightarrow> backlight" where
  "read_timer fd s = emit (E_read_timer fd) s"


definition M_PUB :: "message \<Rightarrow> backlight \<Rightarrow> backlight" where
  "M_PUB m s = emit (E_pub m) s"

text \<open>
  Modelled from the spec: \<open>VALIDATE_REQ\<close> is a macro of a header that is not among the
  sources. The spec: ``every inbound request-type message carries a generation/identity
  token; a request is processed only if it is still the most current outstanding
  request of its kind (stale requests --- superseded by a newer one before being
  handled --- are silently dropped)''. The runtime keeps, for each kind of request, the
  token of the request published last (\<open>latest\<close>).
\<close>

definition VALIDATE_REQ :: "req_kind \<Rightarrow> nat \<Rightarrow> backlight \<Rightarrow> bool" where
  "VALIDATE_REQ k tok s = (tok = latest s k)"

text \<open>
  Modelled from the spec: publishing a request is done by the bus, which is not among
  the sources. Following the same sentence of the spec, a newly published request of
  a kind gets a new token and so supersedes the requests of that kind still outstanding.
\<close>

definition publish_request :: "req_kind \<Rightarrow> backlight \<Rightarrow> nat \<times> backlight" where
  "publish_request k s =
     (let tok = Suc (latest s k) in (tok, s\<lparr>latest := (latest s)(k := tok)\<rparr>))"

definition EINVAL :: int where
  "EINVAL = 22"

definition ENXIO :: int where
  "ENXIO = 6"

text \<open>
  Reading values out of a reply (\<open>sd_bus_message_read\<close>, \<open>sd_bus_message_read_array\<close> of
  libsystemd): a non-negative result when the reply holds values of the requested
  types at the read position, a negative errno otherwise. The first function reads
  from the start of the reply, the array is read after a string.
\<close>

fun sd_bus_message_read :: "string \<Rightarrow> bus_reply \<Rightarrow> int" where
  "sd_bus_message_read types (Reply_b b) = (if types = ''b'' then 1 else - ENXIO)"
| "sd_bus_message_read types (Reply_sb sensor b) =
     (if types = ''sb'' \<or> types = ''s'' then 1 else - ENXIO)"
| "sd_bus_message_read types (Reply_sad sensor intensity) = (if types = ''s'' then 1 else - ENXIO)"
| "sd_bus_message_read types reply = - ENXIO"

fun sd_bus_message_read_array :: "bus_reply \<Rightarrow> int" where
  "sd_bus_message_read_array (Reply_sad sensor intensity) = 1"
| "sd_bus_message_read_array reply = - ENXIO"

fun reply_bool :: "bus_reply \<Rightarrow> int \<Rightarrow> int" where
  "reply_bool (Reply_b b) userdata = (if b then 1 else 0)"
| "reply_bool (Reply_sb sensor b) userdata = (if b then 1 else 0)"
| "reply_bool reply userdata = userdata"

fun reply_array :: "bus_reply \<Rightarrow> real list" where
  "reply_array (Reply_sad sensor intensity) = intensity"
| "reply_array reply = []"

text \<open>
  \<open>parse_bus_reply\<close>: \<open>userdata\<close> points to an \<open>int\<close> (\<open>NULL\<close> for Capture, where it is not
  used); the model passes the pointed-to value in and returns it with the result.
  \<open>amb_msg\<close> is a static message of which only \<open>old\<close> and \<open>new\<close> are ever written.
\<close>

definition parse_bus_reply ::
  "externs \<Rightarrow> bus_reply \<Rightarrow> string \<Rightarrow> int \<Rightarrow> backlight \<Rightarrow> int \<times> int \<times> backlight" where
  "parse_bus_reply X reply member userdata s =
     (if member = ''IsAvailable'' then
        (let r = sd_bus_message_read ''sb'' reply
         in (r, if r \<ge> 0 then reply_bool reply userdata else userdata, s))
      else if member = ''SetAll'' then
        (let r = sd_bus_message_read ''b'' reply
         in (r, if r \<ge> 0 then reply_bool reply userdata else userdata, s))
      else if member = ''Capture'' then
        (let r = sd_bus_message_read ''s'' reply + sd_bus_message_read_array reply
         in if r \<ge> 0 then
              (let intensity = reply_array reply;
                   amb_old = ambient_br (state s);
                   s1 = s\<lparr>state := (state s)\<lparr>ambient_br := compute_average X intensity\<rparr>\<rparr>
               in (r, userdata,
                   M_PUB (AMBIENT_BR_UPD \<lparr>bl_old = amb_old, bl_new = ambient_br (state s1),
                            bl_smooth = 0, bl_step = 0, bl_timeout = 0\<rparr>) s1))
            else (r, userdata, s))
      else (- EINVAL, userdata, s))"

fun member :: "bus_call \<Rightarrow> string" where
  "member (SetAll pct is_smooth step tmo path) = ''SetAll''"
| "member (IsAvailable dev) = ''IsAvailable''"
| "member (Capture dev n opts) = ''Capture''"

text \<open>
  Modelled from the spec: \<open>call\<close> is a function of the bus layer, which is not among the
  sources. The spec: ``Actuation Client: synchronous request/response calls to the
  external sensor-capture and backlight-set services; returns typed results or
  failure''; ``transport failure --- actuation call could not be issued or the external
  service returned an error''; ``malformed response --- response payload could not be
  decoded: treated as transport failure''. The call consumes the environment's next
  answer; with a reply, the reply callback \<open>parse_bus_reply\<close> runs on it. The result is
  0 on success and negative otherwise.
\<close>

definition call :: "externs \<Rightarrow> bus_call \<Rightarrow> int \<Rightarrow> backlight \<Rightarrow> int \<times> int \<times> backlight" where
  "call X c userdata s =
     (let reply = bus s (ncalls s);
          s1 = emit (E_call c) (s\<lparr>ncalls := Suc (ncalls s)\<rparr>)
      in case reply of
           No_reply \<Rightarrow> (- 1, userdata, s1)
         | _ \<Rightarrow> (case parse_bus_reply X reply (member c) userdata s1 of
                  (r, userdata', s2) \<Rightarrow> (if r < 0 then r else 0, userdata', s2)))"

section \<open>The backlight module's functions\<close>

text \<open>
  The timeout table \<open>conf.bl_conf.timeout[state][daytime]\<close>: each power state has a row
  of entries. Reading or writing outside a row is undefined in C; the model returns
  \<open>None\<close> there, and so does every function that makes such an access.
\<close>

definition timeout_at :: "backlight \<Rightarrow> ac_states \<Rightarrow> int \<Rightarrow> int option" where
  "timeout_at s a d =
     (let row = timeout (bl_conf s) a
      in if 0 \<le> d \<and> nat d < length row then Some (row ! nat d) else None)"

definition timeout_store :: "ac_states \<Rightarrow> int \<Rightarrow> int \<Rightarrow> backlight \<Rightarrow> backlight option" where
  "timeout_store a d v s =
     (let row = timeout (bl_conf s) a
      in if 0 \<le> d \<and> nat d < length row
         then Some (s\<lparr>bl_conf := (bl_conf s)\<lparr>timeout := (timeout (bl_conf s))(a := row[nat d := v])\<rparr>\<rparr>)
         else None)"

definition get_current_timeout :: "externs \<Rightarrow> backlight \<Rightarrow> int option" where
  "get_current_timeout X s =
     (if in_event (state s) \<noteq> 0 then timeout_at s (ac_state (state s)) (IN_EVENT X)
      else timeout_at s (ac_state (state s)) (day_time (state s)))"


definition capture_frames_brightness :: "externs \<Rightarrow> backlight \<Rightarrow> int \<times> backlight" where
  "capture_frames_brightness X s =
     (case call X (Capture (dev_name (sens_conf s))
                     (num_captures (sens_conf s) (ac_state (state s)))
                     (dev_opts (sens_conf s))) 0 s of
        (r, userdata, s1) \<Rightarrow> (r, s1))"

definition set_backlight_level ::
  "externs \<Rightarrow> real \<Rightarrow> int \<Rightarrow> real \<Rightarrow> int \<Rightarrow> backlight \<Rightarrow> backlight" where
  "set_backlight_level X pct is_smooth step tmo s =
     (case call X (SetAll pct is_smooth step tmo (screen_path (bl_conf s))) 0 s of
        (r, ok_reply, s1) \<Rightarrow>
          if r = 0 \<and> ok_reply \<noteq> 0
          then M_PUB (BL_UPD \<lparr>bl_old = current_bl_pct (state s1), bl_new = pct,
                        bl_smooth = is_smooth, bl_step = step, bl_timeout = tmo\<rparr>)
                 (s1\<lparr>state := (state s1)\<lparr>current_bl_pct := pct\<rparr>\<rparr>)
          else s1)"

text \<open>
  Modelled from the spec: \<open>clamp\<close> is declared in \<open>my_math.h\<close>, which is not among the
  sources. The spec: ``\<open>clamp(v, lo, hi)\<close> saturates; it is not a rejecting validator'',
  and it is ``order-independent of its bound arguments' literal order''; the module
  calls it as \<open>clamp(v, 1, 0)\<close>.
\<close>

definition clamp :: "real \<Rightarrow> real \<Rightarrow> real \<Rightarrow> real" where
  "clamp v a b =
     (let lo = min a b; hi = max a b in if v > hi then hi else if v < lo then lo else v)"

definition set_new_backlight :: "externs \<Rightarrow> real \<Rightarrow> backlight \<Rightarrow> backlight" where
  "set_new_backlight X perc s =
     (case fit_parameters (state s) (ac_state (state s)) of
        (a0, a1, a2) \<Rightarrow>
          (let b = a0 + a1 * perc + a2 * perc ^ 2;
               new_br_pct = clamp b 1 0
           in set_backlight_level X new_br_pct (if no_smooth (bl_conf s) = 0 then 1 else 0)
                (trans_step (bl_conf s)) (trans_timeout (bl_conf s)) s))"

definition do_capture :: "externs \<Rightarrow> bool \<Rightarrow> bool \<Rightarrow> backlight \<Rightarrow> backlight option" where
  "do_capture X reset_tm capture_only s =
     (case capture_frames_brightness X s of
        (r, s1) \<Rightarrow>
          (let s2 =
             (if r = 0 \<and> \<not> capture_only then
                (let compensated_br = clamp (ambient_br (state s1) - screen_comp (state s1)) 1 0
                 in if compensated_br \<ge> shutter_threshold (bl_conf s1) then
                      (let s' = set_new_backlight X
                                  (compensated_br *
                                     of_int (num_points (sens_conf s1) (ac_state (state s1)) - 1)) s1
                       in if screen_comp (state s') > 0
                          then emit (E_info ''Ambient brightness: %.3lf (-%.3lf screen compensation) -> Backlight pct: %.3lf.'') s'
                          else emit (E_info ''Ambient brightness: %.3lf -> Backlight pct: %.3lf.'') s')
                    else if screen_comp (state s1) > 0
                    then emit (E_info ''Ambient brightness: %.3lf (-%.3lf screen compensation) -> Clogged capture detected.'') s1
                    else emit (E_info ''Ambient brightness: %.3lf -> Clogged capture detected.'') s1)
              else s1)
           in if reset_tm
              then do { t \<leftarrow> get_current_timeout X s2; Some (set_timeout t 0 (bl_fd s2) 0 s2) }
              else Some s2))"

definition upower_callback :: "externs \<Rightarrow> backlight \<Rightarrow> backlight option" where
  "upower_callback X s =
     do { t \<leftarrow> get_current_timeout X s;
          Some (set_timeout 0 (if t > 0 then 1 else 0) (bl_fd s) 0 s) }"

definition interface_autocalib_callback :: "bool \<Rightarrow> backlight \<Rightarrow> backlight" where
  "interface_autocalib_callback new_val s =
     (let s1 = emit (E_info (if new_val then ''Backlight autocalibration disabled.''
                              else ''Backlight autocalibration enabled.'')) s;
          s2 = s1\<lparr>bl_conf := (bl_conf s1)\<lparr>no_auto_calib := (if new_val then 1 else 0)\<rparr>\<rparr>
      in if no_auto_calib (bl_conf s2) \<noteq> 0 then pause_mod AUTOCALIB s2
         else resume_mod AUTOCALIB s2)"

text \<open>\<open>memcpy\<close> of \<open>num_points\<close> doubles: undefined (\<open>None\<close>) when the count is negative or
  exceeds the source or the destination array.\<close>

definition interface_curve_callback ::
  "externs \<Rightarrow> real list option \<Rightarrow> int \<Rightarrow> ac_states \<Rightarrow> backlight \<Rightarrow> backlight option" where
  "interface_curve_callback X regr_points n_points a s =
     do { s1 \<leftarrow>
            (case regr_points of
               None \<Rightarrow> Some s
             | Some pts \<Rightarrow>
                 (let dst = regression_points (sens_conf s) a
                  in if 0 \<le> n_points \<and> nat n_points \<le> length pts \<and> nat n_points \<le> length dst
                     then Some (s\<lparr>sens_conf := (sens_conf s)
                            \<lparr>regression_points := (regression_points (sens_conf s))
                                (a := take (nat n_points) pts @ drop (nat n_points) dst),
                             num_points := (num_points (sens_conf s))(a := n_points)\<rparr>\<rparr>)
                     else None));
          Some (s1\<lparr>state := (state s1)\<lparr>fit_parameters := (fit_parameters (state s1))
                  (a := polynomialfit X (regression_points (sens_conf s1) a)
                          (fit_parameters (state s1) a) (num_points (sens_conf s1) a))\<rparr>\<rparr>) }"

definition interface_timeout_callback :: "externs \<Rightarrow> timeout_upd \<Rightarrow> backlight \<Rightarrow> backlight option" where
  "interface_timeout_callback X up s =
     (if to_daytime up \<ge> DAY X \<and> to_daytime up \<le> SIZE_STATES X then
        do { old_tm \<leftarrow> get_current_timeout X s;
             s1 \<leftarrow> timeout_store (to_state up) (to_daytime up) (to_new up) s;
             if to_state up = ac_state (state s1) \<and>
                (to_daytime up = day_time (state s1) \<or>
                 (in_event (state s1) \<noteq> 0 \<and> to_daytime up = IN_EVENT X))
             then do { new_tm \<leftarrow> get_current_timeout X s1;
                       Some (reset_timer (bl_fd s1) old_tm new_tm s1) }
             else Some s1 }
      else Some (emit (E_warn ''Failed to validate timeout request.'') s))"

definition dimmed_callback :: "backlight \<Rightarrow> backlight" where
  "dimmed_callback s =
     (if display_state (state s) \<noteq> 0 then pause_mod DISPLAY s else resume_mod DISPLAY s)"

definition time_callback :: "externs \<Rightarrow> int \<Rightarrow> bool \<Rightarrow> backlight \<Rightarrow> backlight option" where
  "time_callback X old_val is_event s =
     do { old_timeout \<leftarrow>
            (if \<not> is_event then timeout_at s (ac_state (state s)) old_val
             else timeout_at s (ac_state (state s))
                    (if in_event (state s) \<noteq> 0 then day_time (state s) else IN_EVENT X));
          new_timeout \<leftarrow> get_current_timeout X s;
          Some (reset_timer (bl_fd s) old_timeout new_timeout s) }"


text \<open>\<open>on_bl_changed\<close> gets the signal's arguments (path, percentage) already decoded.\<close>

definition on_bl_changed :: "string \<times> real \<Rightarrow> backlight \<Rightarrow> backlight" where
  "on_bl_changed sig s = s\<lparr>state := (state s)\<lparr>current_bl_pct := snd sig\<rparr>\<rparr>"

definition on_lid_update :: "backlight \<Rightarrow> backlight" where
  "on_lid_update s =
     (if pause_on_lid_closed (bl_conf s) \<noteq> 0 \<and> lid_state (state s) \<noteq> 0
      then pause_mod LID s else resume_mod LID s)"

section \<open>Message handlers\<close>

text \<open>\<open>init\<close>: the subscriptions (\<open>M_SUB\<close>) fix which messages reach the module and are
  not recorded. The statics start as C initialises them.\<close>

definition init :: "externs \<Rightarrow> backlight \<Rightarrow> backlight option" where
  "init X s =
     do { let s1 = s\<lparr>capture_req := \<lparr>cap_reset_timer = True, cap_capture_only = False\<rparr>\<rparr>;
          s2 \<leftarrow> interface_curve_callback X None 0 ON_AC s1;
          s3 \<leftarrow> interface_curve_callback X None 0 ON_BATTERY s2;
          Some (m_become B_waiting_init s3) }"



text \<open>\<open>M_PUB(&capture_req)\<close>: the module publishes its own capture request, which the
  bus delivers back to it later as a \<open>CAPTURE_REQ\<close> message.\<close>

definition receive :: "externs \<Rightarrow> message \<Rightarrow> backlight \<Rightarrow> backlight option" where
  "receive X msg s =
     (case msg of
        FD_UPD fd \<Rightarrow>
          (case publish_request K_CAPTURE (read_timer fd s) of
             (tok, s1) \<Rightarrow> Some (M_PUB (CAPTURE_REQ tok (capture_req s1)) s1))
      | UPOWER_UPD \<Rightarrow> upower_callback X s
      | DISPLAY_UPD \<Rightarrow> Some (dimmed_callback s)
      | IN_EVENT_UPD up \<Rightarrow> time_callback X (dt_old up) True s
      | DAYTIME_UPD up \<Rightarrow> time_callback X (dt_old up) False s
      | LID_UPD \<Rightarrow> Some (on_lid_update s)
      | BL_TO_REQ tok up \<Rightarrow>
          if VALIDATE_REQ K_BL_TO tok s then interface_timeout_callback X up s else Some s
      | CAPTURE_REQ tok up \<Rightarrow>
          if VALIDATE_REQ K_CAPTURE tok s
          then do_capture X (cap_reset_timer up) (cap_capture_only up) s
          else Some s
      | CURVE_REQ tok up \<Rightarrow>
          if VALIDATE_REQ K_CURVE tok s
          then interface_curve_callback X (curve_regression_points up) (curve_num_points up)
                 (curve_state up) s
          else Some s
      | NO_AUTOCALIB_REQ tok up \<Rightarrow>
          if VALIDATE_REQ K_NO_AUTOCALIB tok s
          then Some (interface_autocalib_callback (calib_new up) s)
          else Some s
      | BL_REQ tok up \<Rightarrow>
          if VALIDATE_REQ K_BL tok s
          then Some (set_backlight_level X (bl_new up) (bl_smooth up) (bl_step up)
                       (bl_timeout up) s)
          else Some s
      | _ \<Rightarrow> Some s)"

definition receive_paused :: "externs \<Rightarrow> message \<Rightarrow> backlight \<Rightarrow> backlight option" where
  "receive_paused X msg s =
     (case msg of
        FD_UPD fd \<Rightarrow>
          if \<not> paused_fd_recv s
          then Some ((set_timeout 0 1 (bl_fd s) 0 (read_timer fd s))\<lparr>paused_fd_recv := True\<rparr>)
          else Some s
      | UPOWER_UPD \<Rightarrow> upower_callback X s
      | DISPLAY_UPD \<Rightarrow> Some (dimmed_callback s)
      | IN_EVENT_UPD up \<Rightarrow> time_callback X (dt_old up) True s
      | DAYTIME_UPD up \<Rightarrow> time_callback X (dt_old up) False s
      | LID_UPD \<Rightarrow> Some (on_lid_update s)
      | BL_TO_REQ tok up \<Rightarrow>
          if VALIDATE_REQ K_BL_TO tok s then interface_timeout_callback X up s else Some s
      | CAPTURE_REQ tok up \<Rightarrow>
          if VALIDATE_REQ K_CAPTURE tok s \<and> display_state (state s) = 0
             \<and> sens_avail (state s) \<noteq> 0
          then do_capture X (cap_reset_timer up) (cap_capture_only up) s
          else Some s
      | CURVE_REQ tok up \<Rightarrow>
          if VALIDATE_REQ K_CURVE tok s
          then interface_curve_callback X (curve_regression_points up) (curve_num_points up)
                 (curve_state up) s
          else Some s
      | NO_AUTOCALIB_REQ tok up \<Rightarrow>
          if VALIDATE_REQ K_NO_AUTOCALIB tok s
          then Some (interface_autocalib_callback (calib_new up) s)
          else Some s
      | BL_REQ tok up \<Rightarrow>
          if VALIDATE_REQ K_BL tok s \<and> display_state (state s) = 0
          then Some (set_backlight_level X (bl_new up) (bl_smooth up) (bl_step up)
                       (bl_timeout up) s)
          else Some s
      | _ \<Rightarrow> Some s)"


fun is_start_timer :: "effect \<Rightarrow> bool" where
  "is_start_timer (E_start_timer sec nsec) = True"
| "is_start_timer e = False"

text \<open>The number of one-time setups performed: \<open>start_timer\<close> is called there only.\<close>

definition setups :: "backlight \<Rightarrow> nat" where
  "setups s = length (filter is_start_timer (trace s))"






section \<open>The legacy actuation client (clight/src/brightness.c)\<close>

text \<open>
  \<open>struct brightness\<close> (the field \<open>max\<close> is \<open>br_max\<close> here, and the others are prefixed
  alike), the global \<open>quit\<close> flag, \<open>conf.screen_path\<close>, and the method calls issued on the
  bus, in order, each with its integer argument if it has one.
\<close>

record brightness =
  br_current :: int
  br_max :: int
  br_old :: int











section \<open>A concrete module, to run the model on\<close>

definition ex_externs :: externs where
  "ex_externs = \<lparr>DAY = 0, IN_EVENT = 2, SIZE_STATES = 2, timer_fd = 7,
     compute_average = (\<lambda>xs. sum_list xs / real (length xs)),
     polynomialfit = (\<lambda>pts coeffs n. coeffs)\<rparr>"

definition ex_bl_conf :: bl_conf_t where
  "ex_bl_conf = \<lparr>disabled = 0,
     timeout = (\<lambda>a. case a of ON_AC \<Rightarrow> [600, 2700, 300] | ON_BATTERY \<Rightarrow> [1200, 5400, 600]),
     no_auto_calib = 0, pause_on_lid_closed = 1, shutter_threshold = 1 / 10, no_smooth = 0,
     trans_step = 1 / 20, trans_timeout = 30, screen_path = ''''\<rparr>"

definition ex_sens_conf :: sens_conf_t where
  "ex_sens_conf = \<lparr>dev_name = ''video0'', dev_opts = '''',
     num_captures = (\<lambda>a. 3),
     regression_points = (\<lambda>a. [0, 1 / 4, 1 / 2, 3 / 4, 1]),
     num_points = (\<lambda>a. 5)\<rparr>"

definition ex_state :: state_t where
  "ex_state = \<lparr>ac_state = ON_AC, day_time = 0, in_event = 0, lid_state = 0, display_state = 0,
     sens_avail = 1, ambient_br = 0, screen_comp = 0, current_bl_pct = 1 / 2,
     fit_parameters = (\<lambda>a. (0, 1 / 4, 0))\<rparr>"

text \<open>The module in its default behaviour, not paused, with a service that answers every call
  with \<open>true\<close>.\<close>

definition ex_module :: backlight where
  "ex_module = \<lparr>bl_conf = ex_bl_conf, sens_conf = ex_sens_conf, state = ex_state,
     bl_fd = 7, paused_state = 0, paused_fd_recv = False, ok = 0,
     capture_req = \<lparr>cap_reset_timer = True, cap_capture_only = False\<rparr>,
     stack = [], latest = (\<lambda>k. 0), bus = (\<lambda>n. Reply_b True), ncalls = 0, trace = []\<rparr>"

section \<open>Auxiliary notions for the proofs\<close>

text \<open>The behaviour stack as the pause bitmask determines it, over the stack \<open>st0\<close> the
  module had when nothing was paused.\<close>

definition pause_inv :: "behavior list \<Rightarrow> backlight \<Rightarrow> bool" where
  "pause_inv st0 s = (stack s = (if paused_state s = 0 then st0 else B_paused # st0))"


fun published :: "effect list \<Rightarrow> message list" where
  "published [] = []"
| "published (E_pub m # es) = m # published es"
| "published (e # es) = published es"

fun is_timer_op :: "effect \<Rightarrow> bool" where
  "is_timer_op (E_set_timeout sec nsec fd flags) = True"
| "is_timer_op (E_reset_timer fd old_timer new_timer) = True"
| "is_timer_op (E_read_timer fd) = True"
| "is_timer_op (E_start_timer sec nsec) = True"
| "is_timer_op e = False"

definition timer_ops :: "effect list \<Rightarrow> effect list" where
  "timer_ops es = filter is_timer_op es"

fun infos :: "effect list \<Rightarrow> string list" where
  "infos [] = []"
| "infos (E_info l # es) = l # infos es"
| "infos (e # es) = infos es"

text \<open>The same module with a sensor service: the first call is answered with three
  captured intensities, every later one with \<open>true\<close>.\<close>

definition ex_capture :: backlight where
  "ex_capture = ex_module\<lparr>bus := (\<lambda>n. if n = 0 then Reply_sad ''video0'' [1 / 5, 3 / 10, 1 / 4]
                                      else Reply_b True)\<rparr>"


text \<open>What a function leaves alone: the configuration, the timer descriptor, the
  fields the effective timeout is computed from, the timer operations and the behaviour
  stack.\<close>

definition keeps_timing :: "backlight \<Rightarrow> backlight \<Rightarrow> bool" where
  "keeps_timing s s' =
     (bl_conf s' = bl_conf s \<and> sens_conf s' = sens_conf s \<and> bl_fd s' = bl_fd s
      \<and> ac_state (state s') = ac_state (state s) \<and> day_time (state s') = day_time (state s)
      \<and> in_event (state s') = in_event (state s) \<and> screen_comp (state s') = screen_comp (state s)
      \<and> timer_ops (trace s') = timer_ops (trace s) \<and> stack s' = stack s)"


text \<open>The module paused for want of a sensor, with the display on.\<close>

definition ex_paused :: backlight where
  "ex_paused = ex_capture\<lparr>state := ex_state\<lparr>sens_avail := 0\<rparr>, paused_state := pause_bit SENSOR,
                 stack := [B_paused]\<rparr>"








section \<open>Basic facts about traces and bus calls\<close>


lemma published_append: "published (xs @ ys) = published xs @ published ys"
  by (induction xs rule: published.induct) simp_all

lemma infos_append: "infos (xs @ ys) = infos xs @ infos ys"
  by (induction xs rule: infos.induct) simp_all

lemma timer_ops_append: "timer_ops (xs @ ys) = timer_ops xs @ timer_ops ys"
  by (simp add: timer_ops_def)

lemma call_SetAll:
  "call X (SetAll pct sm st tmo path) ud s =
     (case bus s (ncalls s) of
        Reply_b b \<Rightarrow> (0, if b then 1 else 0, emit (E_call (SetAll pct sm st tmo path)) (s\<lparr>ncalls := Suc (ncalls s)\<rparr>))
      | No_reply \<Rightarrow> (- 1, ud, emit (E_call (SetAll pct sm st tmo path)) (s\<lparr>ncalls := Suc (ncalls s)\<rparr>))
      | _ \<Rightarrow> (- ENXIO, ud, emit (E_call (SetAll pct sm st tmo path)) (s\<lparr>ncalls := Suc (ncalls s)\<rparr>)))"
  by (cases "bus s (ncalls s)") (simp_all add: call_def Let_def parse_bus_reply_def ENXIO_def)

section \<open>Facts about the capture pipeline\<close>

lemma call_Capture:
  "call X (Capture dev n opts) ud s =
     (case bus s (ncalls s) of
        Reply_sad sensor intensity \<Rightarrow>
          (0, ud,
           M_PUB (AMBIENT_BR_UPD \<lparr>bl_old = ambient_br (state s),
                    bl_new = compute_average X intensity,
                    bl_smooth = 0, bl_step = 0, bl_timeout = 0\<rparr>)
             ((emit (E_call (Capture dev n opts)) (s\<lparr>ncalls := Suc (ncalls s)\<rparr>))
                \<lparr>state := (state s)\<lparr>ambient_br := compute_average X intensity\<rparr>\<rparr>))
      | No_reply \<Rightarrow> (- 1, ud, emit (E_call (Capture dev n opts)) (s\<lparr>ncalls := Suc (ncalls s)\<rparr>))
      | Reply_sb sensor b \<Rightarrow>
          (1 - ENXIO, ud, emit (E_call (Capture dev n opts)) (s\<lparr>ncalls := Suc (ncalls s)\<rparr>))
      | _ \<Rightarrow> (- ENXIO - ENXIO, ud, emit (E_call (Capture dev n opts)) (s\<lparr>ncalls := Suc (ncalls s)\<rparr>)))"
  by (cases "bus s (ncalls s)")
     (simp_all add: call_def Let_def parse_bus_reply_def ENXIO_def M_PUB_def emit_def)

lemma capture_failed:
  "\<forall>sensor intensity. bus s (ncalls s) \<noteq> Reply_sad sensor intensity \<Longrightarrow>
   fst (capture_frames_brightness X s) \<noteq> 0
   \<and> snd (capture_frames_brightness X s) =
       emit (E_call (Capture (dev_name (sens_conf s))
                       (num_captures (sens_conf s) (ac_state (state s)))
                       (dev_opts (sens_conf s)))) (s\<lparr>ncalls := Suc (ncalls s)\<rparr>)"
  by (cases "bus s (ncalls s)")
     (simp_all add: capture_frames_brightness_def call_Capture ENXIO_def)


lemma keeps_timing_refl: "keeps_timing s s"
  by (simp add: keeps_timing_def)

lemma keeps_timing_trans: "keeps_timing s s1 \<Longrightarrow> keeps_timing s1 s2 \<Longrightarrow> keeps_timing s s2"
  by (simp add: keeps_timing_def)

lemma keeps_timing_gct: "keeps_timing s s' \<Longrightarrow> get_current_timeout X s' = get_current_timeout X s"
  by (simp add: keeps_timing_def get_current_timeout_def timeout_at_def)

lemma keeps_timing_emit: "\<not> is_timer_op e \<Longrightarrow> keeps_timing s (emit e s)"
  by (simp add: keeps_timing_def emit_def timer_ops_def)

lemma keeps_timing_sbl: "keeps_timing s (set_backlight_level X pct sm st tmo s)"
  by (cases "bus s (ncalls s)")
     (simp_all add: keeps_timing_def set_backlight_level_def call_SetAll M_PUB_def emit_def
        timer_ops_def)

lemma keeps_timing_snb: "keeps_timing s (set_new_backlight X perc s)"
  by (simp add: set_new_backlight_def keeps_timing_sbl split: prod.splits)

lemma keeps_timing_cfb: "keeps_timing s (snd (capture_frames_brightness X s))"
  by (cases "bus s (ncalls s)")
     (simp_all add: keeps_timing_def capture_frames_brightness_def call_Capture M_PUB_def
        emit_def timer_ops_def)

lemma do_capture_no_reset:
  "\<exists>s2. do_capture X False capture_only s = Some s2 \<and> keeps_timing s s2"
proof -
  obtain r s1 where c: "capture_frames_brightness X s = (r, s1)"
    by (cases "capture_frames_brightness X s")
  then have k1: "keeps_timing s s1"
    using keeps_timing_cfb [of s X] by simp
  have k2: "keeps_timing s1 (set_new_backlight X p s1)" for p
    by (rule keeps_timing_snb)
  have k3: "keeps_timing s (emit (E_info l) (set_new_backlight X p s1))" for p l
    by (rule keeps_timing_trans [OF k1 keeps_timing_trans [OF k2 keeps_timing_emit]]) simp
  have k4: "keeps_timing s (emit (E_info l) s1)" for l
    by (rule keeps_timing_trans [OF k1 keeps_timing_emit]) simp
  show ?thesis
    using c k1 k3 k4 by (simp add: do_capture_def Let_def)
qed

lemma do_capture_reset:
  "do_capture X False capture_only s = Some s2 \<Longrightarrow>
   do_capture X True capture_only s =
     (case get_current_timeout X s2 of
        None \<Rightarrow> None
      | Some t \<Rightarrow> Some (set_timeout t 0 (bl_fd s2) 0 s2))"
  by (cases "capture_frames_brightness X s")
     (simp add: do_capture_def Let_def split: option.splits)




lemma sbl_infos:
  "infos (trace (set_backlight_level X pct sm st tmo s)) = infos (trace s)"
  by (cases "bus s (ncalls s)")
     (simp_all add: set_backlight_level_def call_SetAll M_PUB_def emit_def infos_append)






lemma sbl_current:
  "current_bl_pct (state (set_backlight_level X pct sm st tmo s)) =
     (if bus s (ncalls s) = Reply_b True then pct else current_bl_pct (state s))"
  by (cases "bus s (ncalls s)")
     (simp_all add: set_backlight_level_def call_SetAll M_PUB_def emit_def)

section \<open>Pause reasons and the paused behaviour\<close>

lemma or_absorb_word: "(x::32 word) AND b = b \<Longrightarrow> x OR b = x"
proof -
  assume h: "x AND b = b"
  have "x OR (x AND b) = x" by (rule bit_eqI) (auto simp: bit_simps)
  then show ?thesis using h by simp
qed

lemma and_not_absorb_word: "(x::32 word) AND b = 0 \<Longrightarrow> x AND NOT b = x"
proof -
  assume h: "x AND b = 0"
  have "x = x AND (b OR NOT b)" by simp
  also have "\<dots> = (x AND b) OR (x AND NOT b)" by (simp only: bit.conj_disj_distrib)
  finally show ?thesis using h by simp
qed

lemma pause_mod_inv: "pause_inv st0 s \<Longrightarrow> pause_inv st0 (pause_mod r s)"
  by (auto simp: pause_inv_def pause_mod_def Let_def m_become_def m_deregister_fd_def emit_def or_eq_0_iff split: if_splits)

lemma resume_mod_inv: "pause_inv st0 s \<Longrightarrow> pause_inv st0 (resume_mod r s)"
  by (auto simp: pause_inv_def resume_mod_def Let_def m_unbecome_def m_register_fd_def emit_def split: if_splits)

lemma pause_calls_inv: "pause_inv st0 s \<Longrightarrow> pause_inv st0 (pause_calls cs s)"
proof (induction cs arbitrary: s)
  case Nil
  then show ?case by simp
next
  case (Cons c cs)
  then show ?case by (cases c) (simp_all add: pause_mod_inv resume_mod_inv)
qed

lemma pause_mod_idem: "paused_state s AND pause_bit r = pause_bit r \<Longrightarrow> pause_mod r s = s"
  by (simp add: pause_mod_def Let_def or_absorb_word)

lemma resume_mod_idem: "paused_state s AND pause_bit r = 0 \<Longrightarrow> resume_mod r s = s"
  by (simp add: resume_mod_def Let_def and_not_absorb_word)

lemma pause_mod_trace:
  "trace (pause_mod r s) = trace s @
     (if paused_state s = 0 \<and> paused_state (pause_mod r s) \<noteq> 0
      then [E_become B_paused, E_deregister_fd (bl_fd s)] else [])"
  by (simp add: pause_mod_def Let_def m_become_def m_deregister_fd_def emit_def)

lemma resume_mod_trace:
  "trace (resume_mod r s) = trace s @
     (if paused_state s \<noteq> 0 \<and> paused_state (resume_mod r s) = 0
      then [E_unbecome, E_register_fd (bl_fd s)] else [])"
  by (simp add: resume_mod_def Let_def m_unbecome_def m_register_fd_def emit_def)

text \<open>
  Claim C1. Starting unpaused in the default (active) behaviour, after any sequence of
  \<open>pause_mod\<close>/\<open>resume_mod\<close> calls the module is in the paused behaviour exactly when
  the pause bitmask is non-empty, and the behaviour stack is the initial one with
  \<open>paused\<close> pushed on it in that case. Pausing a reason that is already set, or resuming
  one that is not set, returns the module unchanged. \<open>m_become(paused)\<close> (with the
  deregistration of the timer) happens exactly on the edge from an empty to a non-empty
  bitmask, \<open>m_unbecome\<close> (with the registration) exactly on the edge back.
\<close>

theorem paused_iff_reason_set:
  assumes "paused_state s = pause_bit UNPAUSED" and "current_behavior s = B_receive"
  shows "(current_behavior (pause_calls cs s) = B_paused
            \<longleftrightarrow> paused_state (pause_calls cs s) \<noteq> pause_bit UNPAUSED)
       \<and> stack (pause_calls cs s) =
            (if paused_state (pause_calls cs s) = pause_bit UNPAUSED then stack s
             else B_paused # stack s)
       \<and> (paused_state t AND pause_bit r = pause_bit r \<longrightarrow> pause_mod r t = t)
       \<and> (paused_state t AND pause_bit r = 0 \<longrightarrow> resume_mod r t = t)
       \<and> trace (pause_mod r t) = trace t @
            (if paused_state t = pause_bit UNPAUSED \<and> paused_state (pause_mod r t) \<noteq> pause_bit UNPAUSED
             then [E_become B_paused, E_deregister_fd (bl_fd t)] else [])
       \<and> trace (resume_mod r t) = trace t @
            (if paused_state t \<noteq> pause_bit UNPAUSED \<and> paused_state (resume_mod r t) = pause_bit UNPAUSED
             then [E_unbecome, E_register_fd (bl_fd t)] else [])"
proof -
  have "pause_inv (stack s) s"
    using assms(1) by (simp add: pause_inv_def)
  then have inv: "pause_inv (stack s) (pause_calls cs s)"
    by (rule pause_calls_inv)
  then have st: "stack (pause_calls cs s) =
      (if paused_state (pause_calls cs s) = pause_bit UNPAUSED then stack s else B_paused # stack s)"
    by (simp add: pause_inv_def)
  have beh: "current_behavior (pause_calls cs s) = B_paused
      \<longleftrightarrow> paused_state (pause_calls cs s) \<noteq> pause_bit UNPAUSED"
    using assms(2) st by (simp add: current_behavior_def split: list.splits)
  show ?thesis
    using beh st pause_mod_idem resume_mod_idem pause_mod_trace [of r t] resume_mod_trace [of r t]
    by simp
qed

theorem paused_iff_reason_set_witness:
  "paused_state ex_module = pause_bit UNPAUSED \<and> current_behavior ex_module = B_receive
   \<and> paused_state (pause_calls [Pause DISPLAY, Pause LID, Pause DISPLAY, Resume DISPLAY, Resume SENSOR] ex_module) = 8
   \<and> current_behavior (pause_calls [Pause DISPLAY, Pause LID, Pause DISPLAY, Resume DISPLAY, Resume SENSOR] ex_module) = B_paused
   \<and> stack (pause_calls [Pause DISPLAY, Pause LID, Pause DISPLAY, Resume DISPLAY, Resume SENSOR, Resume LID] ex_module) = []
   \<and> pause_mod LID (pause_mod LID ex_module) = pause_mod LID ex_module
   \<and> resume_mod SENSOR (pause_mod LID ex_module) = pause_mod LID ex_module"
  using paused_iff_reason_set [of ex_module
      "[Pause DISPLAY, Pause LID, Pause DISPLAY, Resume DISPLAY, Resume SENSOR]" "pause_mod LID ex_module" LID]
    paused_iff_reason_set [of ex_module
      "[Pause DISPLAY, Pause LID, Pause DISPLAY, Resume DISPLAY, Resume SENSOR, Resume LID]" "pause_mod LID ex_module" SENSOR]
  by (simp add: ex_module_def current_behavior_def pause_mod_def resume_mod_def Let_def
      m_become_def m_unbecome_def m_register_fd_def m_deregister_fd_def emit_def)

section \<open>Setting the backlight level\<close>

text \<open>
  Claim C4. \<open>set_backlight_level(pct, smooth, step, timeout)\<close> makes one \<open>SetAll\<close> call. The
  call succeeds (result zero and a true reply) exactly when the service answers with
  the boolean \<open>true\<close>. Then \<open>state.current_bl_pct\<close> becomes \<open>pct\<close> and exactly one
  \<open>BL_UPD\<close> message is published, with the old percentage, the new one and the smoothing
  parameters as they were passed. In every other case (no reply, a reply that does
  not decode, or the reply \<open>false\<close>) the shared state is left as it was and nothing is
  published.
\<close>

theorem set_backlight_level_outcome:
  "(fst (call X (SetAll pct is_smooth step tmo (screen_path (bl_conf s))) 0 s) = 0
      \<and> fst (snd (call X (SetAll pct is_smooth step tmo (screen_path (bl_conf s))) 0 s)) \<noteq> 0
    \<longleftrightarrow> bus s (ncalls s) = Reply_b True)
   \<and> (bus s (ncalls s) = Reply_b True \<longrightarrow>
        current_bl_pct (state (set_backlight_level X pct is_smooth step tmo s)) = pct
        \<and> trace (set_backlight_level X pct is_smooth step tmo s) = trace s @
            [E_call (SetAll pct is_smooth step tmo (screen_path (bl_conf s))),
             E_pub (BL_UPD \<lparr>bl_old = current_bl_pct (state s), bl_new = pct,
                     bl_smooth = is_smooth, bl_step = step, bl_timeout = tmo\<rparr>)])
   \<and> (bus s (ncalls s) \<noteq> Reply_b True \<longrightarrow>
        state (set_backlight_level X pct is_smooth step tmo s) = state s
        \<and> trace (set_backlight_level X pct is_smooth step tmo s) = trace s @
            [E_call (SetAll pct is_smooth step tmo (screen_path (bl_conf s)))])"
  by (cases "bus s (ncalls s)")
     (simp_all add: set_backlight_level_def call_SetAll M_PUB_def emit_def ENXIO_def)

theorem set_backlight_level_outcome_witness:
  "bus ex_module (ncalls ex_module) = Reply_b True
   \<and> current_bl_pct (state (set_backlight_level ex_externs (3 / 10) 1 (1 / 20) 30 ex_module)) = 3 / 10
   \<and> published (trace (set_backlight_level ex_externs (3 / 10) 1 (1 / 20) 30 ex_module)) =
        [BL_UPD \<lparr>bl_old = 1 / 2, bl_new = 3 / 10, bl_smooth = 1, bl_step = 1 / 20, bl_timeout = 30\<rparr>]
   \<and> bus (ex_module\<lparr>bus := \<lambda>n. Reply_b False\<rparr>) (ncalls (ex_module\<lparr>bus := \<lambda>n. Reply_b False\<rparr>)) \<noteq> Reply_b True
   \<and> current_bl_pct (state (set_backlight_level ex_externs (3 / 10) 1 (1 / 20) 30
        (ex_module\<lparr>bus := \<lambda>n. Reply_b False\<rparr>))) = 1 / 2
   \<and> published (trace (set_backlight_level ex_externs (3 / 10) 1 (1 / 20) 30
        (ex_module\<lparr>bus := \<lambda>n. Reply_b False\<rparr>))) = []"
  using set_backlight_level_outcome [of ex_externs "3 / 10" 1 "1 / 20" 30 ex_module]
    set_backlight_level_outcome [of ex_externs "3 / 10" 1 "1 / 20" 30 "ex_module\<lparr>bus := \<lambda>n. Reply_b False\<rparr>"]
  by (simp add: ex_module_def ex_state_def ex_bl_conf_def)

section \<open>The effective timeout\<close>

text \<open>
  Claim C3. The effective timeout is the entry of the timeout table for the current
  power state and, while an event window is active, the column \<open>IN_EVENT\<close>, otherwise
  the column of the current daytime bucket. Hence, while an event window is active, a
  change of the daytime bucket does not change it (and the \<open>DAYTIME_UPD\<close> handler then
  passes the \<open>IN_EVENT\<close> entry to \<open>reset_timer\<close> as the new timeout); and once the event
  window has ended it is the entry of the daytime bucket the state holds at that
  moment, whatever bucket the messages carried: the \<open>IN_EVENT_UPD\<close> handler passes the
  \<open>IN_EVENT\<close> entry as the old timeout and the entry of \<open>state.day_time\<close> as the new one.
  An entry outside the table is \<open>None\<close> on both sides.
\<close>

theorem effective_timeout:
  "get_current_timeout X s =
     timeout_at s (ac_state (state s))
       (if in_event (state s) \<noteq> 0 then IN_EVENT X else day_time (state s))
   \<and> (in_event (state s) \<noteq> 0 \<longrightarrow>
        get_current_timeout X (s\<lparr>state := (state s)\<lparr>day_time := d\<rparr>\<rparr>) = get_current_timeout X s)
   \<and> (in_event (state s) \<noteq> 0 \<longrightarrow>
        time_callback X old_val False s =
          (case timeout_at s (ac_state (state s)) old_val of
             None \<Rightarrow> None
           | Some old_timeout \<Rightarrow>
               (case timeout_at s (ac_state (state s)) (IN_EVENT X) of
                  None \<Rightarrow> None
                | Some new_timeout \<Rightarrow> Some (reset_timer (bl_fd s) old_timeout new_timeout s))))
   \<and> get_current_timeout X (s\<lparr>state := (state s)\<lparr>day_time := d, in_event := 0\<rparr>\<rparr>) =
        timeout_at s (ac_state (state s)) d
   \<and> (in_event (state s) = 0 \<longrightarrow>
        time_callback X old_val True s =
          (case timeout_at s (ac_state (state s)) (IN_EVENT X) of
             None \<Rightarrow> None
           | Some old_timeout \<Rightarrow>
               (case timeout_at s (ac_state (state s)) (day_time (state s)) of
                  None \<Rightarrow> None
                | Some new_timeout \<Rightarrow> Some (reset_timer (bl_fd s) old_timeout new_timeout s))))"
  by (simp add: get_current_timeout_def time_callback_def timeout_at_def Let_def
      split: option.splits)

theorem effective_timeout_witness:
  "in_event (state (ex_module\<lparr>state := ex_state\<lparr>in_event := 1\<rparr>\<rparr>)) \<noteq> 0
   \<and> get_current_timeout ex_externs (ex_module\<lparr>state := ex_state\<lparr>in_event := 1\<rparr>\<rparr>) = Some 300
   \<and> get_current_timeout ex_externs (ex_module\<lparr>state := ex_state\<lparr>in_event := 1, day_time := 1\<rparr>\<rparr>) = Some 300
   \<and> time_callback ex_externs 0 False (ex_module\<lparr>state := ex_state\<lparr>in_event := 1, day_time := 1\<rparr>\<rparr>)
       = Some (reset_timer 7 600 300 (ex_module\<lparr>state := ex_state\<lparr>in_event := 1, day_time := 1\<rparr>\<rparr>))
   \<and> in_event (state (ex_module\<lparr>state := ex_state\<lparr>day_time := 1\<rparr>\<rparr>)) = 0
   \<and> time_callback ex_externs 0 True (ex_module\<lparr>state := ex_state\<lparr>day_time := 1\<rparr>\<rparr>)
       = Some (reset_timer 7 300 2700 (ex_module\<lparr>state := ex_state\<lparr>day_time := 1\<rparr>\<rparr>))"
  using effective_timeout [of ex_externs "ex_module\<lparr>state := ex_state\<lparr>in_event := 1\<rparr>\<rparr>" 1 0]
    effective_timeout [of ex_externs "ex_module\<lparr>state := ex_state\<lparr>in_event := 1, day_time := 1\<rparr>\<rparr>" 1 0]
    effective_timeout [of ex_externs "ex_module\<lparr>state := ex_state\<lparr>day_time := 1\<rparr>\<rparr>" 1 0]
  by (simp add: ex_module_def ex_state_def ex_bl_conf_def ex_externs_def timeout_at_def)

section \<open>Timeout update requests\<close>





section \<open>Rearming the capture timer\<close>

text \<open>
  Claim C6. Let the effective timeout be \<open>t\<close>. \<open>do_capture(reset_timer, capture_only)\<close>
  with \<open>reset_timer\<close> false performs no timer operation; with \<open>reset_timer\<close> true it does
  the same and then exactly one more thing: \<open>set_timeout(t, 0, bl_fd, 0)\<close>, the rearm to
  the effective timeout with no nanoseconds part. This holds for every answer of the
  sensor service and every capture result. When the Capture call fails (no reply, or a
  reply that does not decode) the pipeline stops there: apart from the record of the
  call itself the module is unchanged, so nothing is compensated, no \<open>SetAll\<close> call is
  issued, nothing is published and the shared state is as before.
\<close>

theorem do_capture_rearm:
  assumes "get_current_timeout X s = Some t"
  shows "\<exists>s2. do_capture X False capture_only s = Some s2
           \<and> timer_ops (trace s2) = timer_ops (trace s)
           \<and> do_capture X True capture_only s = Some (set_timeout t 0 (bl_fd s) 0 s2)
           \<and> timer_ops (trace (set_timeout t 0 (bl_fd s) 0 s2)) =
               timer_ops (trace s) @ [E_set_timeout t 0 (bl_fd s) 0]
           \<and> ((\<forall>sensor intensity. bus s (ncalls s) \<noteq> Reply_sad sensor intensity) \<longrightarrow>
                s2 = emit (E_call (Capture (dev_name (sens_conf s))
                                     (num_captures (sens_conf s) (ac_state (state s)))
                                     (dev_opts (sens_conf s))))
                       (s\<lparr>ncalls := Suc (ncalls s)\<rparr>))"
proof -
  obtain s2 where s2: "do_capture X False capture_only s = Some s2" and k: "keeps_timing s s2"
    using do_capture_no_reset by blast
  have t2: "get_current_timeout X s2 = Some t"
    using keeps_timing_gct [OF k, of X] assms by simp
  have fd: "bl_fd s2 = bl_fd s" and ops: "timer_ops (trace s2) = timer_ops (trace s)"
    using k by (simp_all add: keeps_timing_def)
  have rearm: "do_capture X True capture_only s = Some (set_timeout t 0 (bl_fd s) 0 s2)"
    using do_capture_reset [OF s2, of ] t2 fd by simp
  have ops': "timer_ops (trace (set_timeout t 0 (bl_fd s) 0 s2)) =
      timer_ops (trace s) @ [E_set_timeout t 0 (bl_fd s) 0]"
    using ops by (simp add: set_timeout_def emit_def timer_ops_def)
  have failed: "s2 = emit (E_call (Capture (dev_name (sens_conf s))
                                     (num_captures (sens_conf s) (ac_state (state s)))
                                     (dev_opts (sens_conf s))))
                       (s\<lparr>ncalls := Suc (ncalls s)\<rparr>)"
    if "\<forall>sensor intensity. bus s (ncalls s) \<noteq> Reply_sad sensor intensity"
  proof -
    obtain r s1 where c: "capture_frames_brightness X s = (r, s1)"
      by (cases "capture_frames_brightness X s")
    with capture_failed [OF that, of X] have "r \<noteq> 0" and
      "s1 = emit (E_call (Capture (dev_name (sens_conf s))
                                     (num_captures (sens_conf s) (ac_state (state s)))
                                     (dev_opts (sens_conf s))))
                       (s\<lparr>ncalls := Suc (ncalls s)\<rparr>)"
      by simp_all
    with c s2 show ?thesis
      by (simp add: do_capture_def)
  qed
  show ?thesis
    using s2 ops rearm ops' failed by blast
qed

theorem do_capture_rearm_witness:
  "get_current_timeout ex_externs ex_module = Some 600
   \<and> (\<forall>sensor intensity. bus ex_module (ncalls ex_module) \<noteq> Reply_sad sensor intensity)
   \<and> do_capture ex_externs False False ex_module =
        Some (ex_module\<lparr>ncalls := 1, trace := [E_call (Capture ''video0'' 3 '''')]\<rparr>)
   \<and> do_capture ex_externs True False ex_module =
        Some (ex_module\<lparr>ncalls := 1,
                trace := [E_call (Capture ''video0'' 3 ''''), E_set_timeout 600 0 7 0]\<rparr>)"
proof -
  have g: "get_current_timeout ex_externs ex_module = Some 600"
    by (simp add: get_current_timeout_def timeout_at_def ex_module_def ex_state_def
        ex_bl_conf_def)
  have f: "\<forall>sensor intensity. bus ex_module (ncalls ex_module) \<noteq> Reply_sad sensor intensity"
    by (simp add: ex_module_def)
  from do_capture_rearm [OF g, of False] f obtain s2 where
    a: "do_capture ex_externs False False ex_module = Some s2" and
    b: "do_capture ex_externs True False ex_module = Some (set_timeout 600 0 (bl_fd ex_module) 0 s2)" and
    c: "s2 = emit (E_call (Capture (dev_name (sens_conf ex_module))
                                     (num_captures (sens_conf ex_module) (ac_state (state ex_module)))
                                     (dev_opts (sens_conf ex_module))))
                       (ex_module\<lparr>ncalls := Suc (ncalls ex_module)\<rparr>)"
    by blast
  have s2: "s2 = ex_module\<lparr>ncalls := 1, trace := [E_call (Capture ''video0'' 3 '''')]\<rparr>"
    unfolding c by (simp add: emit_def ex_module_def ex_sens_conf_def ex_state_def)
  have "set_timeout 600 0 (bl_fd ex_module) 0 s2 =
      ex_module\<lparr>ncalls := 1,
                trace := [E_call (Capture ''video0'' 3 ''''), E_set_timeout 600 0 7 0]\<rparr>"
    unfolding s2 by (simp add: set_timeout_def emit_def ex_module_def)
  with a b s2 g f show ?thesis
    by simp
qed

section \<open>From a capture to the backlight\<close>



section \<open>Messages in the paused behaviour\<close>

text \<open>
  Claim C7 as stated fails: in the paused behaviour a capture request that passes the
  freshness check is ignored also when the display is not dimmed, namely when no sensor
  is available (\<open>state.sens_avail\<close> is 0). Here the module is paused because the sensor
  is missing, the display is on and the request is fresh; \<open>receive_paused\<close> leaves the
  module exactly as it is, while the default handler would run the capture.
\<close>

theorem paused_capture_needs_sensor_counterexample:
  "current_behavior ex_paused = B_paused
   \<and> VALIDATE_REQ K_CAPTURE 0 ex_paused
   \<and> display_state (state ex_paused) = 0
   \<and> receive_paused ex_externs
        (CAPTURE_REQ 0 \<lparr>cap_reset_timer = True, cap_capture_only = False\<rparr>) ex_paused = Some ex_paused
   \<and> receive ex_externs
        (CAPTURE_REQ 0 \<lparr>cap_reset_timer = True, cap_capture_only = False\<rparr>) ex_paused \<noteq> Some ex_paused"
proof -
  have a: "receive_paused ex_externs
        (CAPTURE_REQ 0 \<lparr>cap_reset_timer = True, cap_capture_only = False\<rparr>) ex_paused = Some ex_paused"
    by (simp add: receive_paused_def ex_paused_def ex_state_def)
  have g: "get_current_timeout ex_externs ex_paused = Some 600"
    by (simp add: get_current_timeout_def timeout_at_def ex_paused_def ex_capture_def ex_module_def
        ex_state_def ex_bl_conf_def)
  obtain s2 where s2: "do_capture ex_externs False False ex_paused = Some s2"
    and k: "keeps_timing ex_paused s2"
    using do_capture_no_reset by blast
  have "get_current_timeout ex_externs s2 = Some 600"
    using keeps_timing_gct [OF k, of ex_externs] g by simp
  then have d: "do_capture ex_externs True False ex_paused = Some (set_timeout 600 0 (bl_fd s2) 0 s2)"
    using do_capture_reset [OF s2] by simp
  have "timer_ops (trace (set_timeout 600 0 (bl_fd s2) 0 s2)) \<noteq> timer_ops (trace ex_paused)"
    using k by (simp add: keeps_timing_def set_timeout_def emit_def timer_ops_def)
  then have "set_timeout 600 0 (bl_fd s2) 0 s2 \<noteq> ex_paused"
    by auto
  with d have b: "receive ex_externs
        (CAPTURE_REQ 0 \<lparr>cap_reset_timer = True, cap_capture_only = False\<rparr>) ex_paused \<noteq> Some ex_paused"
    by (simp add: receive_def VALIDATE_REQ_def ex_paused_def ex_capture_def ex_module_def)
  show ?thesis
    using a b
    by (simp add: current_behavior_def VALIDATE_REQ_def ex_paused_def ex_capture_def ex_module_def
        ex_state_def)
qed

text \<open>
  Claim C7, amended. In the paused behaviour a \<open>BL_REQ\<close> is handled as in the default
  behaviour (applied if it passes the freshness check) when the display is not dimmed
  and has no effect when it is; a \<open>CAPTURE_REQ\<close> is handled as in the default behaviour
  when the display is not dimmed and a sensor is available, and has no effect
  otherwise. The device-state messages (power, display, lid, daytime, event window) and
  the timeout, curve and autocalibration requests are handled exactly as in the default
  behaviour.
\<close>

theorem paused_message_handling:
  "receive_paused X (BL_REQ tok bu) s =
     (if display_state (state s) = 0 then receive X (BL_REQ tok bu) s else Some s)
   \<and> receive_paused X (CAPTURE_REQ tok cu) s =
     (if display_state (state s) = 0 \<and> sens_avail (state s) \<noteq> 0
      then receive X (CAPTURE_REQ tok cu) s else Some s)
   \<and> receive X (BL_REQ tok bu) s =
     (if VALIDATE_REQ K_BL tok s
      then Some (set_backlight_level X (bl_new bu) (bl_smooth bu) (bl_step bu) (bl_timeout bu) s)
      else Some s)
   \<and> receive X (CAPTURE_REQ tok cu) s =
     (if VALIDATE_REQ K_CAPTURE tok s
      then do_capture X (cap_reset_timer cu) (cap_capture_only cu) s else Some s)
   \<and> receive_paused X UPOWER_UPD s = receive X UPOWER_UPD s
   \<and> receive_paused X DISPLAY_UPD s = receive X DISPLAY_UPD s
   \<and> receive_paused X LID_UPD s = receive X LID_UPD s
   \<and> receive_paused X (DAYTIME_UPD du) s = receive X (DAYTIME_UPD du) s
   \<and> receive_paused X (IN_EVENT_UPD du) s = receive X (IN_EVENT_UPD du) s
   \<and> receive_paused X (BL_TO_REQ tok tu) s = receive X (BL_TO_REQ tok tu) s
   \<and> receive_paused X (CURVE_REQ tok vu) s = receive X (CURVE_REQ tok vu) s
   \<and> receive_paused X (NO_AUTOCALIB_REQ tok au) s = receive X (NO_AUTOCALIB_REQ tok au) s
   \<and> receive X UPOWER_UPD s = upower_callback X s
   \<and> receive X DISPLAY_UPD s = Some (dimmed_callback s)
   \<and> receive X LID_UPD s = Some (on_lid_update s)
   \<and> receive X (DAYTIME_UPD du) s = time_callback X (dt_old du) False s
   \<and> receive X (IN_EVENT_UPD du) s = time_callback X (dt_old du) True s"
  by (simp add: receive_paused_def receive_def)


theorem paused_message_handling_witness:
  "receive_paused ex_externs DISPLAY_UPD ex_paused = Some (dimmed_callback ex_paused)
   \<and> receive_paused ex_externs
        (BL_REQ 0 \<lparr>bl_old = 0, bl_new = 1 / 5, bl_smooth = 0, bl_step = 0, bl_timeout = 0\<rparr>) ex_paused =
        Some (set_backlight_level ex_externs (1 / 5) 0 0 0 ex_paused)
   \<and> receive_paused ex_externs
        (CAPTURE_REQ 0 \<lparr>cap_reset_timer = True, cap_capture_only = False\<rparr>)
        (ex_paused\<lparr>state := ex_state\<lparr>display_state := 1\<rparr>\<rparr>) =
        Some (ex_paused\<lparr>state := ex_state\<lparr>display_state := 1\<rparr>\<rparr>)"
  using paused_message_handling [of ex_externs 0
      "\<lparr>bl_old = 0, bl_new = 1 / 5, bl_smooth = 0, bl_step = 0, bl_timeout = 0\<rparr>" ex_paused]
    paused_message_handling [of ex_externs 0 _ "ex_paused\<lparr>state := ex_state\<lparr>display_state := 1\<rparr>\<rparr>"
      "\<lparr>cap_reset_timer = True, cap_capture_only = False\<rparr>"]
  by (simp add: ex_paused_def ex_state_def ex_capture_def ex_module_def VALIDATE_REQ_def)

section \<open>Stale requests\<close>

text \<open>
  Claim C8. A request that is no longer the most current one of its kind (\<open>VALIDATE_REQ\<close>
  fails) is dropped by the default and by the paused handler without any change to the
  module, for each of the five kinds of request. When two \<open>BL_REQ\<close> messages are
  published one after the other before either is handled, the first one is stale
  whenever it is handled and has no effect; the second one is current, and the default
  handler (the paused one when the display is not dimmed) applies it with
  \<open>set_backlight_level\<close>. So \<open>current_bl_pct\<close> afterwards is the second request's
  percentage if the service accepts the call, and what it was before otherwise; the
  first request's percentage never shows. The freshness check itself follows the spec's
  description of request tokens.
\<close>

theorem stale_requests_dropped:
  "(\<not> VALIDATE_REQ K_BL_TO tok s \<longrightarrow>
      receive X (BL_TO_REQ tok tu) s = Some s \<and> receive_paused X (BL_TO_REQ tok tu) s = Some s)
   \<and> (\<not> VALIDATE_REQ K_CAPTURE tok s \<longrightarrow>
      receive X (CAPTURE_REQ tok cu) s = Some s \<and> receive_paused X (CAPTURE_REQ tok cu) s = Some s)
   \<and> (\<not> VALIDATE_REQ K_CURVE tok s \<longrightarrow>
      receive X (CURVE_REQ tok vu) s = Some s \<and> receive_paused X (CURVE_REQ tok vu) s = Some s)
   \<and> (\<not> VALIDATE_REQ K_NO_AUTOCALIB tok s \<longrightarrow>
      receive X (NO_AUTOCALIB_REQ tok au) s = Some s
      \<and> receive_paused X (NO_AUTOCALIB_REQ tok au) s = Some s)
   \<and> (\<not> VALIDATE_REQ K_BL tok s \<longrightarrow>
      receive X (BL_REQ tok bu) s = Some s \<and> receive_paused X (BL_REQ tok bu) s = Some s)
   \<and> (case publish_request K_BL s of
        (t1, s1) \<Rightarrow>
          (case publish_request K_BL s1 of
             (t2, s2) \<Rightarrow>
               \<not> VALIDATE_REQ K_BL t1 s2 \<and> VALIDATE_REQ K_BL t2 s2
               \<and> receive X (BL_REQ t1 b1) s2 = Some s2
               \<and> receive X (BL_REQ t2 b2) s2 =
                   Some (set_backlight_level X (bl_new b2) (bl_smooth b2) (bl_step b2)
                           (bl_timeout b2) s2)
               \<and> receive_paused X (BL_REQ t1 b1) s2 = Some s2
               \<and> receive_paused X (BL_REQ t2 b2) s2 =
                   (if display_state (state s) = 0
                    then Some (set_backlight_level X (bl_new b2) (bl_smooth b2) (bl_step b2)
                                 (bl_timeout b2) s2)
                    else Some s2)
               \<and> current_bl_pct (state (set_backlight_level X (bl_new b2) (bl_smooth b2)
                     (bl_step b2) (bl_timeout b2) s2)) =
                   (if bus s (ncalls s) = Reply_b True then bl_new b2
                    else current_bl_pct (state s))))"
  by (simp add: receive_def receive_paused_def VALIDATE_REQ_def publish_request_def Let_def
      sbl_current)

theorem stale_requests_dropped_witness:
  "\<not> VALIDATE_REQ K_BL_TO 3 ex_module \<and> \<not> VALIDATE_REQ K_CAPTURE 3 ex_module
   \<and> \<not> VALIDATE_REQ K_CURVE 3 ex_module \<and> \<not> VALIDATE_REQ K_NO_AUTOCALIB 3 ex_module
   \<and> receive ex_externs (BL_TO_REQ 3 \<lparr>to_state = ON_AC, to_daytime = 0, to_new = 5\<rparr>) ex_module
       = Some ex_module
   \<and> receive ex_externs (CAPTURE_REQ 3 \<lparr>cap_reset_timer = True, cap_capture_only = False\<rparr>)
        ex_module = Some ex_module
   \<and> receive_paused ex_externs
        (CURVE_REQ 3 \<lparr>curve_regression_points = None, curve_num_points = 0, curve_state = ON_AC\<rparr>)
        ex_module = Some ex_module
   \<and> receive_paused ex_externs (NO_AUTOCALIB_REQ 3 \<lparr>calib_new = True\<rparr>) ex_module
       = Some ex_module
   \<and> \<not> VALIDATE_REQ K_BL 3 ex_module
   \<and> receive ex_externs
        (BL_REQ 3 \<lparr>bl_old = 0, bl_new = 1 / 5, bl_smooth = 0, bl_step = 0, bl_timeout = 0\<rparr>)
        ex_module = Some ex_module
   \<and> publish_request K_BL ex_module = (1, ex_module\<lparr>latest := (\<lambda>k. 0)(K_BL := 1)\<rparr>)
   \<and> publish_request K_BL (ex_module\<lparr>latest := (\<lambda>k. 0)(K_BL := 1)\<rparr>) =
        (2, ex_module\<lparr>latest := (\<lambda>k. 0)(K_BL := 2)\<rparr>)
   \<and> receive ex_externs
        (BL_REQ 1 \<lparr>bl_old = 0, bl_new = 1 / 5, bl_smooth = 0, bl_step = 0, bl_timeout = 0\<rparr>)
        (ex_module\<lparr>latest := (\<lambda>k. 0)(K_BL := 2)\<rparr>) = Some (ex_module\<lparr>latest := (\<lambda>k. 0)(K_BL := 2)\<rparr>)
   \<and> current_bl_pct (state (set_backlight_level ex_externs (4 / 5) 0 0 0
        (ex_module\<lparr>latest := (\<lambda>k. 0)(K_BL := 2)\<rparr>))) = 4 / 5"
proof -
  have p1: "publish_request K_BL ex_module = (1, ex_module\<lparr>latest := (\<lambda>k. 0)(K_BL := 1)\<rparr>)"
    by (simp add: publish_request_def Let_def ex_module_def)
  have p2: "publish_request K_BL (ex_module\<lparr>latest := (\<lambda>k. 0)(K_BL := 1)\<rparr>) =
        (2, ex_module\<lparr>latest := (\<lambda>k. 0)(K_BL := 2)\<rparr>)"
    by (simp add: publish_request_def Let_def ex_module_def numeral_2_eq_2)
  have v: "\<not> VALIDATE_REQ K_BL 3 ex_module" "\<not> VALIDATE_REQ K_BL_TO 3 ex_module"
    "\<not> VALIDATE_REQ K_CAPTURE 3 ex_module" "\<not> VALIDATE_REQ K_CURVE 3 ex_module"
    "\<not> VALIDATE_REQ K_NO_AUTOCALIB 3 ex_module"
    by (simp_all add: VALIDATE_REQ_def ex_module_def)
  have b: "bus ex_module (ncalls ex_module) = Reply_b True"
    by (simp add: ex_module_def)
  show ?thesis
    using v p1 p2 b
      stale_requests_dropped [of 3 ex_module ex_externs
        "\<lparr>to_state = ON_AC, to_daytime = 0, to_new = 5\<rparr>"
        "\<lparr>cap_reset_timer = True, cap_capture_only = False\<rparr>"
        "\<lparr>curve_regression_points = None, curve_num_points = 0, curve_state = ON_AC\<rparr>"
        "\<lparr>calib_new = True\<rparr>"
        "\<lparr>bl_old = 0, bl_new = 1 / 5, bl_smooth = 0, bl_step = 0, bl_timeout = 0\<rparr>"
        "\<lparr>bl_old = 0, bl_new = 1 / 5, bl_smooth = 0, bl_step = 0, bl_timeout = 0\<rparr>"
        "\<lparr>bl_old = 0, bl_new = 4 / 5, bl_smooth = 0, bl_step = 0, bl_timeout = 0\<rparr>"]
    by simp
qed

section \<open>The legacy client's set_brightness\<close>




section \<open>Waiting for the three dependencies\<close>










































lemma init_leaves_waiting:
  "\<exists>s'. init X s = Some s' \<and> stack s' = B_waiting_init # stack s \<and> ok s' = ok s
      \<and> paused_state s' = paused_state s \<and> setups s' = setups s"
  by (simp add: init_def interface_curve_callback_def m_become_def emit_def setups_def)



end
